theory Spec2Isabelle
  imports Main "HOL-Library.Sublist"
begin

section \<open>Strings, exceptions and time\<close>

text \<open>
  A Python \<^verbatim>\<open>str\<close> is a sequence of Unicode code points, so a string of the program is a
  list of code points. \<open>py\<close> embeds an ASCII literal.
\<close>

type_synonym pystr = "nat list"

definition py :: "string \<Rightarrow> pystr" where
  "py s = map of_char s"

text \<open>
  The exception classes that the modelled code raises, catches or lets through. All of
  them derive from \<^verbatim>\<open>Exception\<close>; \<^verbatim>\<open>OtherException\<close> stands for any further subclass of
  \<^verbatim>\<open>Exception\<close> (a connection error, an unexpected response of the store, ...). A result
  \<open>Inl e\<close> is "raised \<open>e\<close>", \<open>Inr v\<close> is "returned \<open>v\<close>".
\<close>

datatype py_exception = ValueError | TypeError | KeyError | OverflowError | OtherException pystr

text \<open>
  A naive \<^verbatim>\<open>datetime\<close>, to the second, and \<^verbatim>\<open>strftime("%Y-%m-%d %H:%M:%S")\<close>. The year of
  a \<^verbatim>\<open>datetime\<close> is between 1 and 9999. \<^verbatim>\<open>%m\<close>, \<^verbatim>\<open>%d\<close>, \<^verbatim>\<open>%H\<close>, \<^verbatim>\<open>%M\<close> and \<^verbatim>\<open>%S\<close> are two digits,
  zero-padded; \<^verbatim>\<open>%Y\<close> is the year in decimal as the C library prints it, without padding:
  the year 99 is \<^verbatim>\<open>99\<close>, not \<^verbatim>\<open>0099\<close>.
\<close>

record datetime =
  year :: nat
  month :: nat
  day :: nat
  hour :: nat
  minute :: nat
  second :: nat

definition digit :: "nat \<Rightarrow> nat" where
  "digit n = 48 + n mod 10"

definition pad2 :: "nat \<Rightarrow> pystr" where
  "pad2 n = [digit (n div 10), digit n]"

definition year_digits :: "nat \<Rightarrow> pystr" where
  "year_digits n =
     (if n < 10 then [digit n]
      else if n < 100 then [digit (n div 10), digit n]
      else if n < 1000 then [digit (n div 100), digit (n div 10), digit n]
      else [digit (n div 1000), digit (n div 100), digit (n div 10), digit n])"

definition strftime :: "datetime \<Rightarrow> pystr" where
  "strftime d =
     year_digits (year d) @ py ''-'' @ pad2 (month d) @ py ''-'' @ pad2 (day d) @ py '' '' @
     pad2 (hour d) @ py '':'' @ pad2 (minute d) @ py '':'' @ pad2 (second d)"

section \<open>Text cleaning\<close>

subsection \<open>String methods of Python\<close>

text \<open>
  \<^verbatim>\<open>str.isspace\<close> for one code point: the characters \<^verbatim>\<open>str.strip()\<close> removes from both
  ends.
\<close>

definition whitespace_chars :: "nat list" where
  "whitespace_chars =
     [9, 10, 11, 12, 13, 28, 29, 30, 31, 32, 133, 160, 5760,
      8192, 8193, 8194, 8195, 8196, 8197, 8198, 8199, 8200, 8201, 8202,
      8232, 8233, 8239, 8287, 12288]"

definition is_space :: "nat \<Rightarrow> bool" where
  "is_space c = (c \<in> set whitespace_chars)"

definition strip :: "pystr \<Rightarrow> pystr" where
  "strip s = rev (dropWhile is_space (rev (dropWhile is_space s)))"

text \<open>
  \<^verbatim>\<open>str.lower()\<close>, code point by code point. The rows are those of the Unicode character
  database for ASCII, Latin-1 and Latin Extended-A, and the two letters outside ASCII
  whose lowercase form contains an ASCII letter (U+0130 and the Kelvin sign U+212A).
  Every other code point is left as it is: its lowercase form lies outside ASCII and
  outside every table below, and \<^verbatim>\<open>clean_non_ascii_chars\<close> deletes it either way.
\<close>

definition lower_char :: "nat \<Rightarrow> pystr" where
  "lower_char c =
     (if 65 \<le> c \<and> c \<le> 90 then [c + 32]
      else if 192 \<le> c \<and> c \<le> 222 \<and> c \<noteq> 215 then [c + 32]
      else if c = 304 then [105, 775]
      else if c = 376 then [255]
      else if (256 \<le> c \<and> c \<le> 303 \<or> 306 \<le> c \<and> c \<le> 311 \<or> 330 \<le> c \<and> c \<le> 375) \<and> even c
        then [c + 1]
      else if (313 \<le> c \<and> c \<le> 328 \<or> 377 \<le> c \<and> c \<le> 382) \<and> odd c then [c + 1]
      else if c = 8490 then [107]
      else [c])"

definition lower :: "pystr \<Rightarrow> pystr" where
  "lower s = concat (map lower_char s)"

text \<open>
  \<^verbatim>\<open>str.replace(old, new)\<close>: the occurrences of \<open>old\<close> are found from left to right and do
  not overlap. With an empty \<open>old\<close>, Python puts \<open>new\<close> before every character and at
  the end.
\<close>

fun replace_scan :: "pystr \<Rightarrow> pystr \<Rightarrow> pystr \<Rightarrow> pystr" where
  "replace_scan old new [] = []"
| "replace_scan old new (c # cs) =
     (if old \<noteq> [] \<and> take (length old) (c # cs) = old
      then new @ replace_scan old new (drop (length old) (c # cs))
      else c # replace_scan old new cs)"

definition replace :: "pystr \<Rightarrow> pystr \<Rightarrow> pystr \<Rightarrow> pystr" where
  "replace old new s =
     (if old = [] then new @ concat (map (\<lambda>c. c # new) s) else replace_scan old new s)"

text \<open>\<^verbatim>\<open>str.split(sep)\<close> for a separator of one character: it never returns an empty list.\<close>

fun split_on :: "nat \<Rightarrow> pystr \<Rightarrow> pystr list" where
  "split_on sep [] = [[]]"
| "split_on sep (c # cs) =
     (if c = sep then [] # split_on sep cs
      else (case split_on sep cs of
              [] \<Rightarrow> [[c]]
            | w # ws \<Rightarrow> (c # w) # ws))"

subsection \<open>The cleaners of \<^verbatim>\<open>unstructured.cleaners.core\<close>\<close>

text \<open>
  \<^verbatim>\<open>backend/cleaners.py\<close> imports \<^verbatim>\<open>clean\<close>, \<^verbatim>\<open>clean_non_ascii_chars\<close>,
  \<^verbatim>\<open>replace_unicode_quotes\<close> and \<^verbatim>\<open>remove_punctuation\<close> from the \<^verbatim>\<open>unstructured\<close> package.
  They are short, pure functions; each is modelled after the package's code, which is
  quoted with it.

  \<^verbatim>\<open>clean_dashes\<close>: \<^verbatim>\<open>re.sub(r"[-\u2013]", " ", text).strip()\<close>.
\<close>

definition clean_dashes :: "pystr \<Rightarrow> pystr" where
  "clean_dashes s = strip (map (\<lambda>c. if c = 45 \<or> c = 8211 then 32 else c) s)"

text \<open>
  \<^verbatim>\<open>clean_extra_whitespace\<close>:
  \<^verbatim>\<open>
  cleaned_text = re.sub(r"[\xa0\n]", " ", text)
  cleaned_text = re.sub(r"([ ]{2,})", " ", cleaned_text)
  return cleaned_text.strip()
  \<close>
  The second substitution turns every maximal run of two or more spaces into one space:
  a space that is followed by a space is dropped.
\<close>

fun collapse_spaces :: "pystr \<Rightarrow> pystr" where
  "collapse_spaces (a # b # cs) =
     (if a = 32 \<and> b = 32 then collapse_spaces (b # cs) else a # collapse_spaces (b # cs))"
| "collapse_spaces cs = cs"

definition clean_extra_whitespace :: "pystr \<Rightarrow> pystr" where
  "clean_extra_whitespace s =
     strip (collapse_spaces (map (\<lambda>c. if c = 160 \<or> c = 10 then 32 else c) s))"

text \<open>
  \<^verbatim>\<open>clean_bullets\<close>:
  \<^verbatim>\<open>
  search = UNICODE_BULLETS_RE.match(text)
  if search is None:
      return text
  cleaned_text = UNICODE_BULLETS_RE.sub("", text, 1)
  return cleaned_text.strip()
  \<close>
  where \<^verbatim>\<open>UNICODE_BULLETS_RE\<close> is one bullet character that is not followed by a bullet
  character. \<^verbatim>\<open>match\<close> looks at the start of the text only, so the one substitution
  removes the first character.
\<close>

definition unicode_bullets :: "nat list" where
  "unicode_bullets =
     [0x95, 0x2022, 0x2023, 0x2043, 0x3164, 0x204C, 0x204D, 0x2219, 0x25CB, 0x25CF,
      0x25D8, 0x25E6, 0x2619, 0x2765, 0x2767, 0x29BE, 0x29BF, 0x2D, 0xF0B7, 0x2A, 0xB7]"

definition clean_bullets :: "pystr \<Rightarrow> pystr" where
  "clean_bullets s =
     (case s of
        [] \<Rightarrow> s
      | b # rest \<Rightarrow>
          if b \<in> set unicode_bullets \<and> (case rest of [] \<Rightarrow> True | c # _ \<Rightarrow> c \<notin> set unicode_bullets)
          then strip rest else s)"

text \<open>
  \<^verbatim>\<open>clean(text, lowercase=True, extra_whitespace=True, dashes=True, bullets=True)\<close>, the
  call of \<^verbatim>\<open>clean_full\<close> (\<^verbatim>\<open>trailing_punctuation\<close> keeps its default, False):
  \<^verbatim>\<open>
  cleaned_text = text.lower() if lowercase else text
  cleaned_text = clean_dashes(cleaned_text) if dashes else cleaned_text
  cleaned_text = clean_extra_whitespace(cleaned_text) if extra_whitespace else cleaned_text
  cleaned_text = clean_bullets(cleaned_text) if bullets else cleaned_text
  return cleaned_text.strip()
  \<close>
\<close>

definition clean :: "pystr \<Rightarrow> pystr" where
  "clean s = strip (clean_bullets (clean_extra_whitespace (clean_dashes (lower s))))"

text \<open>
  \<^verbatim>\<open>replace_unicode_quotes\<close> is a series of \<^verbatim>\<open>text = text.replace(old, new)\<close>, in this
  order: the Windows-1252 quotes \<^verbatim>\<open>\x91\<close> to \<^verbatim>\<open>\x94\<close>, the entity \<^verbatim>\<open>&apos;\<close>, and the
  sequences that start with U+00E2 U+0080 (UTF-8 punctuation read as Latin-1).
\<close>

definition unicode_quote_table :: "(pystr \<times> pystr) list" where
  "unicode_quote_table =
     [([0x91], [0x2018]), ([0x92], [0x2019]), ([0x93], [0x201C]), ([0x94], [0x201D]),
      (py ''&apos;'', [39]),
      ([0xE2, 0x80, 0x99], [39]),
      ([0xE2, 0x80, 0x201C], [0x2014]),
      ([0xE2, 0x80, 0x201D], [0x2013]),
      ([0xE2, 0x80, 0x2DC], [0x2018]),
      ([0xE2, 0x80, 0xA6], [0x2026]),
      ([0xE2, 0x80, 0x2122], [0x2019]),
      ([0xE2, 0x80, 0x153], [0x201C]),
      ([0xE2, 0x80, 0x3F], [0x201D]),
      ([0xE2, 0x80, 0x165], [0x201D]),
      ([0xE2, 0x80, 0x15B], [0x201C]),
      ([0xE2, 0x80, 0xA8], [0x2014]),
      ([0xE2, 0x80, 0x142], [0x2033]),
      ([0xE2, 0x80, 0x17D], []),
      ([0xE2, 0x80, 0x201A], []),
      ([0xE2, 0x80, 0x2030], []),
      ([0xE2, 0x80, 0x2039], []),
      ([0xE2, 0x80], []),
      ([0xE2, 0x80, 0x73, 0x27], [])]"

definition replace_unicode_quotes :: "pystr \<Rightarrow> pystr" where
  "replace_unicode_quotes s = foldl (\<lambda>t (old, new). replace old new t) s unicode_quote_table"

text \<open>\<^verbatim>\<open>clean_non_ascii_chars\<close>: \<^verbatim>\<open>text.encode("ascii", "ignore").decode()\<close>.\<close>

definition clean_non_ascii_chars :: "pystr \<Rightarrow> pystr" where
  "clean_non_ascii_chars s = filter (\<lambda>c. c < 128) s"

text \<open>
  \<^verbatim>\<open>remove_punctuation\<close>: \<^verbatim>\<open>s.translate(tbl)\<close>, where \<^verbatim>\<open>tbl\<close> deletes every character whose
  Unicode category starts with P. The table is written out for the code points below
  256; \<^verbatim>\<open>clean_full\<close> calls \<^verbatim>\<open>remove_punctuation\<close> on the result of
  \<^verbatim>\<open>clean_non_ascii_chars\<close>, so it reads the ASCII rows only.
\<close>

definition punctuation_chars :: "nat list" where
  "punctuation_chars =
     [33, 34, 35, 37, 38, 39, 40, 41, 42, 44, 45, 46, 47, 58, 59, 63, 64, 91, 92, 93, 95,
      123, 125, 161, 167, 171, 182, 183, 187, 191]"

definition is_punctuation :: "nat \<Rightarrow> bool" where
  "is_punctuation c = (c \<in> set punctuation_chars)"

definition remove_punctuation :: "pystr \<Rightarrow> pystr" where
  "remove_punctuation s = filter (\<lambda>c. \<not> is_punctuation c) s"

subsection \<open>\<^verbatim>\<open>backend/cleaners.py\<close>\<close>

text \<open>
  \<^verbatim>\<open>
  def clean_full(text: str) -> str:
      text = clean(text=text, lowercase=True, extra_whitespace=True, dashes=True, bullets=True)
      text = replace_unicode_quotes(text)
      text = clean_non_ascii_chars(text)
      text = remove_punctuation(text)
      return text
  \<close>
\<close>

definition clean_full :: "pystr \<Rightarrow> pystr" where
  "clean_full s = remove_punctuation (clean_non_ascii_chars (replace_unicode_quotes (clean s)))"

subsection \<open>Character classes used in the statements\<close>

text \<open>A \<open>plain\<close> text is ASCII without punctuation.\<close>

definition plain :: "pystr \<Rightarrow> bool" where
  "plain s = (\<forall>c \<in> set s. c < 128 \<and> \<not> is_punctuation c)"

text \<open>
  A \<open>tidy\<close> text is plain, has no ASCII capital and no line feed, no two spaces in a row
  and no whitespace at its ends.
\<close>

definition tidy :: "pystr \<Rightarrow> bool" where
  "tidy s =
     (plain s \<and> (\<forall>c \<in> set s. \<not> (65 \<le> c \<and> c \<le> 90) \<and> c \<noteq> 10) \<and>
      \<not> sublist [32, 32] s \<and> strip s = s)"

section \<open>Documents (\<^verbatim>\<open>backend/models.py\<close>)\<close>

text \<open>
  \<^verbatim>\<open>CURRENT_TIMESTAMP = datetime.utcnow().strftime("%Y-%m-%d %H:%M:%S")\<close> is a module-level
  assignment: it runs once, when \<^verbatim>\<open>backend.models\<close> is imported. Its value is a function
  of the UTC time of that import.
\<close>

definition CURRENT_TIMESTAMP :: "datetime \<Rightarrow> pystr" where
  "CURRENT_TIMESTAMP import_time = strftime import_time"

text \<open>
  \<^verbatim>\<open>CommonDocument\<close>, the unified article. The text fields hold what their validator
  returned.
\<close>

record CommonDocument =
  article_id :: pystr
  title :: pystr
  url :: pystr
  published_at :: pystr
  source_name :: pystr
  image_url :: pystr
  description :: pystr
  content :: pystr

text \<open>
  The validator of \<^verbatim>\<open>title\<close>, \<^verbatim>\<open>description\<close> and \<^verbatim>\<open>content\<close> (\<^verbatim>\<open>mode="before"\<close>):
  \<^verbatim>\<open>
  def clean_text_fields(cls, value: Optional[str]) -> str:
      return clean_full(value) if value else "N/A"
  \<close>
  \<^verbatim>\<open>None\<close> and the empty string are the falsy values of \<^verbatim>\<open>Optional[str]\<close>.
\<close>

definition clean_text_fields :: "pystr option \<Rightarrow> pystr" where
  "clean_text_fields v =
     (case v of
        None \<Rightarrow> py ''N/A''
      | Some s \<Rightarrow> if s \<noteq> [] then clean_full s else py ''N/A'')"

text \<open>
  The validator of \<^verbatim>\<open>published_at\<close>:
  \<^verbatim>\<open>
  def clean_date_field(cls, value: str) -> str:
      try:
          parsed_date = parser.parse(value)
          return parsed_date.strftime("%Y-%m-%d %H:%M:%S")
      except (ValueError, TypeError):
          logger.error(...)
          return CURRENT_TIMESTAMP
  \<close>
  \<^verbatim>\<open>parser.parse\<close> is \<^verbatim>\<open>dateutil\<close>'s parser, a parameter of the model: it returns a
  \<^verbatim>\<open>datetime\<close> or raises (\<^verbatim>\<open>ParserError\<close>, a \<^verbatim>\<open>ValueError\<close>, for a string that is no date;
  \<^verbatim>\<open>TypeError\<close> for a value that is no string; \<^verbatim>\<open>OverflowError\<close> for a date beyond the
  platform's integers). The second parameter is the value that the module constant
  \<^verbatim>\<open>CURRENT_TIMESTAMP\<close> has in the running process. An exception outside the
  \<^verbatim>\<open>except\<close> clause leaves the function.
\<close>

definition clean_date_field ::
  "('v \<Rightarrow> py_exception + datetime) \<Rightarrow> pystr \<Rightarrow> 'v \<Rightarrow> py_exception + pystr" where
  "clean_date_field parser_parse current_timestamp v =
     (case parser_parse v of
        Inr parsed_date \<Rightarrow> Inr (strftime parsed_date)
      | Inl e \<Rightarrow> if e = ValueError \<or> e = TypeError then Inr current_timestamp else Inl e)"

text \<open>
  Modelled from the spec: \<^verbatim>\<open>parser.parse\<close> on the two inputs of the spec's example
  (\<^verbatim>\<open>"2024-13-40"\<close> is no date, \<^verbatim>\<open>"March 3, 2024"\<close> is 3 March 2024, midnight). The excerpt
  is used at these two inputs only; it answers every other input like the first.
\<close>

definition example_parser :: "pystr \<Rightarrow> py_exception + datetime" where
  "example_parser v =
     (if v = py ''March 3, 2024''
      then Inr \<lparr>year = 2024, month = 3, day = 3, hour = 0, minute = 0, second = 0\<rparr>
      else Inl ValueError)"

text \<open>
  \<^verbatim>\<open>ChunkedDocument\<close> and \<^verbatim>\<open>EmbeddedDocument\<close>. The second has the fields of the first and
  \<^verbatim>\<open>embeddings\<close>, so it is its extension. \<^verbatim>\<open>metadata\<close> is a dictionary from strings to
  strings, as \<^verbatim>\<open>RefinedDocument.from_common\<close> builds it; the vector's numbers are of any
  type \<open>'f\<close>.
\<close>

record ChunkedDocument =
  doc_id :: pystr
  chunk_id :: pystr
  full_raw_text :: pystr
  text_field :: pystr
  metadata :: "(pystr \<times> pystr) list"

record 'f EmbeddedDocument = ChunkedDocument +
  embeddings :: "'f list"

text \<open>
  \<^verbatim>\<open>
  def to_payload(self) -> tuple[str, List[float], Dict[str, Any]]:
      return self.chunk_id, self.embeddings, self.metadata
  \<close>
\<close>

definition to_payload :: "'f EmbeddedDocument \<Rightarrow> pystr \<times> 'f list \<times> (pystr \<times> pystr) list" where
  "to_payload d = (chunk_id d, embeddings d, metadata d)"

section \<open>Chunking\<close>

text \<open>
  A Hugging Face tokenizer, as far as the program uses it: \<^verbatim>\<open>tokenizer.tokenize(s)\<close>
  (a list of tokens), \<^verbatim>\<open>tokenizer.model_max_length\<close>, and the call
  \<^verbatim>\<open>tokenizer(text, padding=True, truncation=True, ...)\<close> that prepares the model's input
  and may raise.
\<close>

record ('tok, 'enc) tokenizer_obj =
  tokenize :: "pystr \<Rightarrow> 'tok list"
  model_max_length :: nat
  encode :: "pystr \<Rightarrow> nat \<Rightarrow> py_exception + 'enc"

text \<open>
  \<^verbatim>\<open>unstructured.staging.huggingface.chunk_by_attention_window(text, tokenizer)\<close> with its
  defaults \<^verbatim>\<open>buffer=2\<close>, \<^verbatim>\<open>split_function=lambda text: text.split(" ")\<close>,
  \<^verbatim>\<open>chunk_separator=" "\<close>:
  \<^verbatim>\<open>
  max_input_size = tokenizer.model_max_length
  if buffer < 0 or buffer >= max_input_size:
      raise ValueError(...)
  max_chunk_size = max_input_size - buffer
  split_text = split_function(text)
  num_splits = len(split_text)
  chunks = []; chunk_text = ""; chunk_size = 0
  for i, segment in enumerate(split_text):
      tokens = tokenizer.tokenize(segment)
      num_tokens = len(tokens)
      if num_tokens > max_chunk_size:
          raise ValueError(...)
      if chunk_size + num_tokens > max_chunk_size:
          chunks.append(chunk_text + chunk_separator.strip())
          chunk_text = ""
          chunk_size = 0
      if chunk_size > 0:
          chunk_text += chunk_separator
      chunk_text += segment
      chunk_size += num_tokens
      if i == (num_splits - 1) and len(chunk_text) > 0:
          chunks.append(chunk_text)
  return chunks
  \<close>
  The loop carries \<open>chunks\<close>, \<open>chunk_text\<close> and \<open>chunk_size\<close>; the last segment is the one
  with no segment after it.
\<close>

fun attention_window_loop ::
  "('tok, 'enc) tokenizer_obj \<Rightarrow> nat \<Rightarrow> pystr list \<Rightarrow> pystr \<Rightarrow> nat \<Rightarrow> pystr list
     \<Rightarrow> py_exception + pystr list" where
  "attention_window_loop tk max_chunk_size chunks chunk_text chunk_size [] = Inr chunks"
| "attention_window_loop tk max_chunk_size chunks chunk_text chunk_size (segment # rest) =
     (let num_tokens = length (tokenize tk segment) in
      if num_tokens > max_chunk_size then Inl ValueError
      else
        let full = (chunk_size + num_tokens > max_chunk_size);
            chunks1 = (if full then chunks @ [chunk_text @ strip (py '' '')] else chunks);
            chunk_text1 = (if full then [] else chunk_text);
            chunk_size1 = (if full then 0 else chunk_size);
            chunk_text2 = (if chunk_size1 > 0 then chunk_text1 @ py '' '' else chunk_text1) @ segment;
            chunk_size2 = chunk_size1 + num_tokens;
            chunks2 = (if rest = [] \<and> length chunk_text2 > 0 then chunks1 @ [chunk_text2]
                       else chunks1)
        in attention_window_loop tk max_chunk_size chunks2 chunk_text2 chunk_size2 rest)"

definition chunk_by_attention_window ::
  "pystr \<Rightarrow> ('tok, 'enc) tokenizer_obj \<Rightarrow> py_exception + pystr list" where
  "chunk_by_attention_window s tk =
     (let buffer = 2; max_input_size = model_max_length tk in
      if buffer \<ge> max_input_size then Inl ValueError
      else attention_window_loop tk (max_input_size - buffer) [] [] 0 (split_on 32 s))"

text \<open>
  \<^verbatim>\<open>ChunkedDocument.chunk_text\<close>:
  \<^verbatim>\<open>
  text_sections = RECURSIVE_SPLITTER.split_text(text=text)
  chunks = []
  for section in text_sections:
      chunks.extend(chunk_by_attention_window(section, embedding_model.tokenizer))
  return chunks
  \<close>
  \<^verbatim>\<open>RECURSIVE_SPLITTER\<close> is a \<^verbatim>\<open>RecursiveCharacterTextSplitter()\<close> of \<^verbatim>\<open>langchain\<close>; its
  \<^verbatim>\<open>split_text\<close> is a parameter of the model. An exception of
  \<^verbatim>\<open>chunk_by_attention_window\<close> ends the loop and leaves \<^verbatim>\<open>chunk_text\<close>.
\<close>

fun chunk_sections ::
  "('tok, 'enc) tokenizer_obj \<Rightarrow> pystr list \<Rightarrow> pystr list \<Rightarrow> py_exception + pystr list" where
  "chunk_sections tk chunks [] = Inr chunks"
| "chunk_sections tk chunks (section # text_sections) =
     (case chunk_by_attention_window section tk of
        Inl e \<Rightarrow> Inl e
      | Inr cs \<Rightarrow> chunk_sections tk (chunks @ cs) text_sections)"

definition chunk_text ::
  "(pystr \<Rightarrow> pystr list) \<Rightarrow> ('tok, 'enc) tokenizer_obj \<Rightarrow> pystr \<Rightarrow> py_exception + pystr list" where
  "chunk_text split_text tk s = chunk_sections tk [] (split_text s)"

text \<open>
  Modelled from the spec: the coarse splitter on a text shorter than its section size
  (\<^verbatim>\<open>RecursiveCharacterTextSplitter()\<close> has \<^verbatim>\<open>chunk_size=4000\<close> and
  \<^verbatim>\<open>strip_whitespace=True\<close>). Such a text is not cut: it comes back as one section, its
  surrounding whitespace stripped, and as no section at all when nothing is left (the
  "possibly re-split" text of the spec). Longer texts are outside this excerpt.
\<close>

definition short_text_splitter :: "pystr \<Rightarrow> pystr list" where
  "short_text_splitter s = (if strip s = [] then [] else [strip s])"

text \<open>A tokenizer for examples: one token per character, a window of 16 tokens.\<close>

definition char_tokenizer :: "(nat, pystr) tokenizer_obj" where
  "char_tokenizer =
     \<lparr>tokenize = (\<lambda>s. s), model_max_length = 16, encode = (\<lambda>s n. Inr (take n s))\<rparr>"

section \<open>Embedding\<close>

text \<open>
  \<^verbatim>\<open>TextEmbedder\<close>: its tokenizer, its model (from the prepared input to the flattened
  \<^verbatim>\<open>last_hidden_state[:, 0, :]\<close>, or an exception) and \<^verbatim>\<open>max_input_length\<close>.
\<close>

record ('tok, 'enc, 'f) TextEmbedder =
  tokenizer :: "('tok, 'enc) tokenizer_obj"
  model :: "'enc \<Rightarrow> py_exception + 'f list"
  max_input_length :: nat

text \<open>
  \<^verbatim>\<open>TextEmbedder.__call__(input_text, to_list=True)\<close>:
  \<^verbatim>\<open>
  if not input_text:
      return []
  try:
      tokenized_text = self._tokenizer(input_text, padding=True, truncation=True,
          return_tensors="pt", max_length=self._max_input_length).to(self._device)
  except Exception:
      return []
  try:
      with torch.no_grad():
          result = self._model(**tokenized_text)
      embeddings = result.last_hidden_state[:, 0, :].cpu().detach().numpy()
  except Exception:
      return []
  return embeddings.flatten().tolist()
  \<close>
\<close>

definition embed :: "('tok, 'enc, 'f) TextEmbedder \<Rightarrow> pystr \<Rightarrow> 'f list" where
  "embed m input_text =
     (if input_text = [] then []
      else case encode (tokenizer m) input_text (max_input_length m) of
             Inl e \<Rightarrow> []
           | Inr tokenized_text \<Rightarrow>
               (case model m tokenized_text of
                  Inl e \<Rightarrow> []
                | Inr vec \<Rightarrow> vec))"

text \<open>
  \<^verbatim>\<open>EmbeddedDocument.from_chunked\<close> copies the chunk's fields and sets
  \<^verbatim>\<open>embeddings=embedding_model(chunked_doc.text, to_list=True)\<close>.
\<close>

definition from_chunked ::
  "ChunkedDocument \<Rightarrow> ('tok, 'enc, 'f) TextEmbedder \<Rightarrow> 'f EmbeddedDocument" where
  "from_chunked chunked_doc m =
     \<lparr>doc_id = doc_id chunked_doc, chunk_id = chunk_id chunked_doc,
      full_raw_text = full_raw_text chunked_doc, text_field = text_field chunked_doc,
      metadata = metadata chunked_doc, embeddings = embed m (text_field chunked_doc)\<rparr>"

text \<open>
  The end of the dataflow in \<^verbatim>\<open>backend/flow.py\<close>, \<^verbatim>\<open>build\<close>:
  \<^verbatim>\<open>
  stream = op.map("embed", stream,
                  lambda chunked_doc: EmbeddedDocument.from_chunked(chunked_doc, model))
  op.output("output", stream, _build_output(model, config=config))
  \<close>
  \<^verbatim>\<open>op.map\<close> applies the function to every item of the stream and emits every result;
  \<^verbatim>\<open>op.output\<close> hands every item of the stream to the sink. For the chunked documents
  that the \<^verbatim>\<open>chunkenize\<close> step emitted, these are the documents the sink is given.
\<close>

definition embed_output :: "('tok, 'enc, 'f) TextEmbedder \<Rightarrow> ChunkedDocument list \<Rightarrow> 'f EmbeddedDocument list" where
  "embed_output m stream = map (\<lambda>chunked_doc. from_chunked chunked_doc m) stream"

text \<open>An embedder for examples whose tokenizer call raises on every input.\<close>

definition failing_embedder :: "(nat, pystr, int) TextEmbedder" where
  "failing_embedder =
     \<lparr>tokenizer = \<lparr>tokenize = (\<lambda>s. s), model_max_length = 16,
                    encode = (\<lambda>s n. Inl (OtherException (py ''tokenizer'')))\<rparr>,
      model = (\<lambda>enc. Inr [1, 2, 3]), max_input_length = 16\<rparr>"

definition working_embedder :: "(nat, pystr, int) TextEmbedder" where
  "working_embedder =
     \<lparr>tokenizer = char_tokenizer, model = (\<lambda>enc. Inr [1, 2, 3]), max_input_length = 16\<rparr>"

section \<open>The sink (\<^verbatim>\<open>backend/qdrant.py\<close>)\<close>

text \<open>
  \<^verbatim>\<open>PointStruct(id=..., vector=..., payload=...)\<close> of the Qdrant client, and a collection:
  the points it stores.
\<close>

record 'f PointStruct =
  point_id :: pystr
  vector :: "'f list"
  payload :: "(pystr \<times> pystr) list"

type_synonym 'f collection = "'f PointStruct list"

text \<open>
  The two calls the sink makes on its \<^verbatim>\<open>QdrantClient\<close>, each on the collection as it is at
  the moment of the call: \<^verbatim>\<open>query_points\<close> with the filter "payload field \<^verbatim>\<open>url\<close> equals
  the given value" and \<^verbatim>\<open>limit=1\<close>, which returns the response's points or raises, and
  \<^verbatim>\<open>upsert\<close>, which returns the collection after the write or raises.
\<close>

record 'f QdrantClient =
  query_points :: "'f collection \<Rightarrow> pystr \<Rightarrow> py_exception + 'f PointStruct list"
  upsert :: "'f collection \<Rightarrow> 'f PointStruct list \<Rightarrow> py_exception + 'f collection"

text \<open>
  \<^verbatim>\<open>
  def article_exists(self, article_url: str) -> bool:
      try:
          filter_condition = Filter(must=[FieldCondition(key="url", match=MatchValue(value=article_url))])
          response = self._client.query_points(collection_name=self._collection_name,
              query_filter=filter_condition, limit=1, with_payload=True)
          return len(response.points) > 0
      except Exception as e:
          logging.error(f"Error during article existence check: {e}")
          return False
  \<close>
\<close>

definition article_exists :: "'f QdrantClient \<Rightarrow> 'f collection \<Rightarrow> pystr \<Rightarrow> bool" where
  "article_exists client coll article_url =
     (case query_points client coll article_url of
        Inr points \<Rightarrow> length points > 0
      | Inl e \<Rightarrow> False)"

text \<open>
  \<^verbatim>\<open>
  def write_batch(self, documents: List[EmbeddedDocument]):
      points = []
      for doc in documents:
          if not self.article_exists(doc.metadata["url"]):
              points.append(PointStruct(id=doc.doc_id, vector=doc.embeddings, payload=doc.metadata))
          else:
              logging.info(f"Duplicate article skipped: {doc.doc_id}")
      if points:
          try:
              self._client.upsert(collection_name=self._collection_name, points=points)
          except Exception as e:
              logging.error(f"Error during batch upsert: {e}")
  \<close>
  \<open>stage_points\<close> is the \<^verbatim>\<open>for\<close> loop with its variable \<open>points\<close>; \<^verbatim>\<open>doc.metadata["url"]\<close>
  raises \<^verbatim>\<open>KeyError\<close> when the key is missing, outside of any \<^verbatim>\<open>try\<close>. \<open>write_batch\<close>
  returns the collection after the call; a failed upsert is logged and leaves it as it was.
  \<open>write_document\<close> is the method \<^verbatim>\<open>write\<close>, which calls \<^verbatim>\<open>self.write_batch([document])\<close>.
\<close>

definition staged_point :: "'f EmbeddedDocument \<Rightarrow> 'f PointStruct" where
  "staged_point doc = \<lparr>point_id = doc_id doc, vector = embeddings doc, payload = metadata doc\<rparr>"

fun stage_points ::
  "'f QdrantClient \<Rightarrow> 'f collection \<Rightarrow> 'f PointStruct list \<Rightarrow> 'f EmbeddedDocument list
     \<Rightarrow> py_exception + 'f PointStruct list" where
  "stage_points client coll points [] = Inr points"
| "stage_points client coll points (doc # documents) =
     (case map_of (metadata doc) (py ''url'') of
        None \<Rightarrow> Inl KeyError
      | Some article_url \<Rightarrow>
          if \<not> article_exists client coll article_url
          then stage_points client coll (points @ [staged_point doc]) documents
          else stage_points client coll points documents)"

definition write_batch ::
  "'f QdrantClient \<Rightarrow> 'f collection \<Rightarrow> 'f EmbeddedDocument list \<Rightarrow> py_exception + 'f collection" where
  "write_batch client coll documents =
     (case stage_points client coll [] documents of
        Inl e \<Rightarrow> Inl e
      | Inr points \<Rightarrow>
          if points \<noteq> []
          then (case upsert client coll points of
                  Inr coll' \<Rightarrow> Inr coll'
                | Inl e \<Rightarrow> Inr coll)
          else Inr coll)"

definition write_document :: "'f QdrantClient \<Rightarrow> 'f collection \<Rightarrow> 'f EmbeddedDocument \<Rightarrow> py_exception + 'f collection" where
  "write_document client coll document = write_batch client coll [document]"

text \<open>
  Modelled from the spec: the vector store collaborator, \<^verbatim>\<open>exists(filter_field, value)\<close> as
  an exact-match query on the payload's \<^verbatim>\<open>url\<close> and \<^verbatim>\<open>upsert(points)\<close> as
  insert-or-overwrite keyed by the point's id ("re-upserting the same id overwrites in
  place"). \<open>reachable_store\<close> is a client whose calls succeed; \<open>unreachable_store\<close> is one
  whose calls raise.
\<close>

definition has_url :: "pystr \<Rightarrow> 'f PointStruct \<Rightarrow> bool" where
  "has_url article_url p = (map_of (payload p) (py ''url'') = Some article_url)"

definition upsert_point :: "'f collection \<Rightarrow> 'f PointStruct \<Rightarrow> 'f collection" where
  "upsert_point coll p =
     (if point_id p \<in> set (map point_id coll)
      then map (\<lambda>q. if point_id q = point_id p then p else q) coll
      else coll @ [p])"

definition reachable_store :: "'f QdrantClient" where
  "reachable_store =
     \<lparr>query_points = (\<lambda>coll article_url. Inr (take 1 (filter (has_url article_url) coll))),
      upsert = (\<lambda>coll points. Inr (foldl upsert_point coll points))\<rparr>"


text \<open>An embedded chunk for examples: parent article, chunk id, URL.\<close>

definition example_chunk :: "string \<Rightarrow> string \<Rightarrow> string \<Rightarrow> int EmbeddedDocument" where
  "example_chunk d c u =
     \<lparr>doc_id = py d, chunk_id = py c, full_raw_text = py ''title.text'', text_field = py c,
      metadata = [(py ''title'', py ''title''), (py ''url'', py u)], embeddings = [1, 2, 3]\<rparr>"

section \<open>The source partition (\<^verbatim>\<open>backend/flow.py\<close>)\<close>

text \<open>
  \<^verbatim>\<open>
  class NewsStreamSource(StatefulSourcePartition):
      def __init__(self, fetch_func, resume_state=None):
          self.fetch_func = fetch_func
          self.last_fetched_timestamp = resume_state or datetime.now(tz=timezone.utc)
      def next_batch(self):
          articles = self.fetch_func()
          if not articles:
              logger.info("No articles fetched from this source.")
              return []
          return articles
      def snapshot(self):
          return self.last_fetched_timestamp
  \<close>
  What a method reads from outside the object is an argument of its model: the UTC time
  of the call, and the provider's state, from which \<^verbatim>\<open>fetch_func\<close> computes the articles
  it returns (an empty list after an error: \<^verbatim>\<open>error_handler\<close> wraps every fetch
  function). A method returns its result and the object after the call.
\<close>

record ('p, 'a) NewsStreamSource =
  fetch_func :: "'p \<Rightarrow> 'a list"
  last_fetched_timestamp :: datetime

definition NewsStreamSource_init ::
  "('p \<Rightarrow> 'a list) \<Rightarrow> datetime option \<Rightarrow> datetime \<Rightarrow> ('p, 'a) NewsStreamSource" where
  "NewsStreamSource_init f resume_state now =
     \<lparr>fetch_func = f,
      last_fetched_timestamp = (case resume_state of Some t \<Rightarrow> t | None \<Rightarrow> now)\<rparr>"

definition next_batch ::
  "('p, 'a) NewsStreamSource \<Rightarrow> datetime \<Rightarrow> 'p \<Rightarrow> 'a list \<times> ('p, 'a) NewsStreamSource" where
  "next_batch self now provider =
     (let articles = fetch_func self provider in
      if articles = [] then ([], self) else (articles, self))"

definition snapshot :: "('p, 'a) NewsStreamSource \<Rightarrow> datetime" where
  "snapshot self = last_fetched_timestamp self"

text \<open>A run of polls: the partition after \<^verbatim>\<open>next_batch\<close> was called at each given time.\<close>

fun after_polls ::
  "('p, 'a) NewsStreamSource \<Rightarrow> (datetime \<times> 'p) list \<Rightarrow> ('p, 'a) NewsStreamSource" where
  "after_polls self [] = self"
| "after_polls self ((now, provider) # polls) =
     after_polls (snd (next_batch self now provider)) polls"

section \<open>The fetcher's duplicate filter (\<^verbatim>\<open>backend/news_loader.py\<close>)\<close>

text \<open>
  \<^verbatim>\<open>ArticleFetcher._remove_duplicates\<close>:
  \<^verbatim>\<open>
  seen_urls = set()
  unique_articles = []
  for article in articles:
      if article.url not in seen_urls:
          unique_articles.append(article)
          seen_urls.add(article.url)
  return unique_articles
  \<close>
  The loop is a recursion over the remaining articles that carries the two local
  variables; \<open>unique_articles\<close> grows at its end, as \<^verbatim>\<open>append\<close> does.
\<close>

fun remove_duplicates_loop ::
  "pystr set \<Rightarrow> CommonDocument list \<Rightarrow> CommonDocument list \<Rightarrow> CommonDocument list" where
  "remove_duplicates_loop seen_urls unique_articles [] = unique_articles"
| "remove_duplicates_loop seen_urls unique_articles (article # articles) =
     (if url article \<notin> seen_urls
      then remove_duplicates_loop (insert (url article) seen_urls)
             (unique_articles @ [article]) articles
      else remove_duplicates_loop seen_urls unique_articles articles)"

definition remove_duplicates :: "CommonDocument list \<Rightarrow> CommonDocument list" where
  "remove_duplicates articles = remove_duplicates_loop {} [] articles"

text \<open>The positions of a list that hold the first occurrence of their URL.\<close>

definition first_occurrence :: "CommonDocument list \<Rightarrow> nat \<Rightarrow> bool" where
  "first_occurrence articles i =
     (\<forall>j \<in> set [0..<i]. url (articles ! j) \<noteq> url (articles ! i))"

text \<open>
  What the loop appends, without its accumulators: the remaining articles whose URL is
  neither in \<open>seen\<close> nor carried by an earlier remaining article.
\<close>

fun fresh_articles :: "pystr set \<Rightarrow> CommonDocument list \<Rightarrow> CommonDocument list" where
  "fresh_articles seen [] = []"
| "fresh_articles seen (a # as) =
     (if url a \<in> seen then fresh_articles seen as
      else a # fresh_articles (insert (url a) seen) as)"

text \<open>An article for examples: id and URL.\<close>

definition example_article :: "string \<Rightarrow> string \<Rightarrow> CommonDocument" where
  "example_article i u =
     \<lparr>article_id = py i, title = py ''title'', url = py u,
      published_at = py ''2024-03-03 00:00:00'', source_name = py ''Unknown'',
      image_url = py ''N/A'', description = py ''N/A'', content = py ''N/A''\<rparr>"

section \<open>Evaluation of the examples\<close>

lemmas example_defs = py_def example_article_def example_chunk_def staged_point_def

section \<open>Properties of the duplicate filter\<close>

lemma remove_duplicates_loop_fresh:
  "remove_duplicates_loop seen acc as = acc @ fresh_articles seen as"
  by (induction as arbitrary: seen acc) simp_all

lemma fresh_articles_urls:
  "set (map url (fresh_articles seen as)) = url ` set as - seen"
  by (induction as arbitrary: seen) auto

lemma fresh_articles_distinct: "distinct (map url (fresh_articles seen as))"
  by (induction as arbitrary: seen) (auto simp: fresh_articles_urls simp del: set_map)

lemma fresh_articles_subseq: "subseq (fresh_articles seen as) as"
  by (induction as arbitrary: seen) auto

lemma fresh_articles_subset: "set (fresh_articles seen as) \<subseteq> set as"
  by (induction as arbitrary: seen) auto

lemma fresh_articles_filter:
  "fresh_articles seen as =
     map (\<lambda>i. as ! i)
       (filter (\<lambda>i. url (as ! i) \<notin> seen \<and> (\<forall>j \<in> set [0..<i]. url (as ! j) \<noteq> url (as ! i)))
          [0..<length as])"
proof (induction as arbitrary: seen)
  case Nil
  show ?case by simp
next
  case (Cons a as)
  have shift: "[0..<length (a # as)] = 0 # map Suc [0..<length as]"
    by (simp add: upt_conv_Cons map_Suc_upt del: upt_Suc)
  have earlier: "(\<forall>j \<in> set [0..<Suc i]. url ((a # as) ! j) \<noteq> url (as ! i)) \<longleftrightarrow>
      url a \<noteq> url (as ! i) \<and> (\<forall>j \<in> set [0..<i]. url (as ! j) \<noteq> url (as ! i))" for i
    by (simp add: Ball_def All_less_Suc2 del: upt_Suc)
  show ?case
  proof (cases "url a \<in> seen")
    case True
    have same: "(\<lambda>i. url (as ! i) \<notin> seen \<and> url a \<noteq> url (as ! i) \<and>
                  (\<forall>j \<in> set [0..<i]. url (as ! j) \<noteq> url (as ! i))) =
                (\<lambda>i. url (as ! i) \<notin> seen \<and>
                  (\<forall>j \<in> set [0..<i]. url (as ! j) \<noteq> url (as ! i)))"
      using True by (intro ext) auto
    from True show ?thesis
      unfolding shift
      by (simp add: Cons.IH filter_map comp_def earlier same del: upt_Suc set_upt)
  next
    case False
    have same: "(\<lambda>i. url (as ! i) \<noteq> url a \<and> url (as ! i) \<notin> seen \<and>
                  (\<forall>j \<in> set [0..<i]. url (as ! j) \<noteq> url (as ! i))) =
                (\<lambda>i. url (as ! i) \<notin> seen \<and> url a \<noteq> url (as ! i) \<and>
                  (\<forall>j \<in> set [0..<i]. url (as ! j) \<noteq> url (as ! i)))"
      by (intro ext) auto
    from False show ?thesis
      unfolding shift
      by (simp add: Cons.IH filter_map comp_def earlier same del: upt_Suc set_upt)
  qed
qed

text \<open>
  C10. \<^verbatim>\<open>_remove_duplicates\<close> returns the subsequence of its input that keeps the first
  occurrence of each URL in the original order: the URLs of the result are pairwise
  different, every element of the result occurs in the input, and the article at
  position \<open>i\<close> of the input is kept exactly when no earlier position carries its URL.
\<close>

theorem remove_duplicates_first_occurrences:
  "distinct (map url (remove_duplicates articles)) \<and>
   set (remove_duplicates articles) \<subseteq> set articles \<and>
   subseq (remove_duplicates articles) articles \<and>
   remove_duplicates articles =
     map (\<lambda>i. articles ! i) (filter (first_occurrence articles) [0..<length articles])"
proof -
  have eq: "remove_duplicates articles = fresh_articles {} articles"
    by (simp add: remove_duplicates_def remove_duplicates_loop_fresh)
  have "remove_duplicates articles =
      map (\<lambda>i. articles ! i) (filter (first_occurrence articles) [0..<length articles])"
    unfolding eq fresh_articles_filter [of "{}" articles] first_occurrence_def by simp
  then show ?thesis
    using fresh_articles_distinct [of "{}" articles] fresh_articles_subset [of "{}" articles]
      fresh_articles_subseq [of "{}" articles]
    unfolding eq by simp
qed

text \<open>
  C10 on three articles of which the third repeats the URL of the first.
\<close>

theorem remove_duplicates_first_occurrences_witness:
  "remove_duplicates
     [example_article ''1'' ''u'', example_article ''2'' ''v'', example_article ''3'' ''u''] =
   [example_article ''1'' ''u'', example_article ''2'' ''v''] \<and>
   filter (first_occurrence
     [example_article ''1'' ''u'', example_article ''2'' ''v'', example_article ''3'' ''u''])
     [0..<3] = [0, 1]"
  using remove_duplicates_first_occurrences
    [of "[example_article ''1'' ''u'', example_article ''2'' ''v'', example_article ''3'' ''u'']"]
  by (simp add: first_occurrence_def example_article_def py_def upt_rec)

section \<open>Properties of the sink\<close>



text \<open>
  C1. The claim: every point staged by \<^verbatim>\<open>write_batch\<close> has the document's \<^verbatim>\<open>chunk_id\<close> as its
  id, so that two chunks of one article are stored as two points. The code at two chunks
  \<open>c1\<close> and \<open>c2\<close> of the article \<open>A\<close>, written in one batch to an empty collection: both
  staged points have the id \<open>A\<close>, the \<^verbatim>\<open>doc_id\<close>, where \<^verbatim>\<open>to_payload\<close> names \<open>c1\<close> and \<open>c2\<close>;
  after the upsert the collection holds one point, the second chunk's.
\<close>

theorem write_batch_stages_doc_id:
  "stage_points reachable_store [] []
     [example_chunk ''A'' ''c1'' ''https://x/a'', example_chunk ''A'' ''c2'' ''https://x/a''] =
     Inr [staged_point (example_chunk ''A'' ''c1'' ''https://x/a''),
          staged_point (example_chunk ''A'' ''c2'' ''https://x/a'')] \<and>
   map point_id
     [staged_point (example_chunk ''A'' ''c1'' ''https://x/a''),
      staged_point (example_chunk ''A'' ''c2'' ''https://x/a'')] = [py ''A'', py ''A''] \<and>
   map (fst \<circ> to_payload)
     [example_chunk ''A'' ''c1'' ''https://x/a'', example_chunk ''A'' ''c2'' ''https://x/a''] =
     [py ''c1'', py ''c2''] \<and>
   write_batch reachable_store [] 
     [example_chunk ''A'' ''c1'' ''https://x/a'', example_chunk ''A'' ''c2'' ''https://x/a''] =
     Inr [staged_point (example_chunk ''A'' ''c2'' ''https://x/a'')]"
  by (simp add: example_defs write_batch_def article_exists_def reachable_store_def
        upsert_point_def to_payload_def)





section \<open>Properties of the embed step\<close>

text \<open>
  C2, as stated, fails: a chunked document whose tokenization raises is embedded to the
  empty list, and the embed step hands it to the sink with that empty \<^verbatim>\<open>embeddings\<close>.
\<close>

theorem empty_embedding_reaches_sink:
  "embed failing_embedder (py ''breaking news'') = [] \<and>
   map chunk_id (embed_output failing_embedder
     [\<lparr>doc_id = py ''A'', chunk_id = py ''c1'', full_raw_text = py ''breaking news'',
       text_field = py ''breaking news'', metadata = [(py ''url'', py ''https://x/a'')]\<rparr>]) =
     [py ''c1''] \<and>
   map embeddings (embed_output failing_embedder
     [\<lparr>doc_id = py ''A'', chunk_id = py ''c1'', full_raw_text = py ''breaking news'',
       text_field = py ''breaking news'', metadata = [(py ''url'', py ''https://x/a'')]\<rparr>]) =
     [[]]"
  by (simp add: embed_output_def from_chunked_def embed_def failing_embedder_def py_def)

lemma embed_empty_result:
  "input_text = [] \<or>
   (\<exists>e. encode (tokenizer m) input_text (max_input_length m) = Inl e) \<or>
   (\<exists>enc e. encode (tokenizer m) input_text (max_input_length m) = Inr enc \<and>
            model m enc = Inl e) \<Longrightarrow>
   embed m input_text = []"
  by (auto simp: embed_def)

text \<open>
  C2, amended. The embed step forwards every chunked document to the sink: it emits one
  \<^verbatim>\<open>EmbeddedDocument\<close> per chunked document, in order, with the chunk's fields and with
  \<^verbatim>\<open>embeddings\<close> equal to the embedder's result for the chunk's text; when the text is
  empty, or tokenization or inference raises, the document the sink is given has an empty
  \<^verbatim>\<open>embeddings\<close> vector.
\<close>

theorem embed_output_forwards_every_chunk:
  "length (embed_output m stream) = length stream \<and>
   (\<forall>i \<in> set [0..<length stream].
      ChunkedDocument.truncate (embed_output m stream ! i) = stream ! i \<and>
      embeddings (embed_output m stream ! i) = embed m (text_field (stream ! i)) \<and>
      ((text_field (stream ! i) = [] \<or>
        (\<exists>e. encode (tokenizer m) (text_field (stream ! i)) (max_input_length m) = Inl e) \<or>
        (\<exists>enc e. encode (tokenizer m) (text_field (stream ! i)) (max_input_length m) = Inr enc \<and>
                 model m enc = Inl e))
       \<longrightarrow> embeddings (embed_output m stream ! i) = []))"
proof -
  have "embeddings (from_chunked c m) = embed m (text_field c)" for c :: ChunkedDocument
    by (simp add: from_chunked_def)
  moreover have "ChunkedDocument.truncate (from_chunked c m) = c" for c :: ChunkedDocument
    by (simp add: from_chunked_def ChunkedDocument.truncate_def)
  ultimately show ?thesis
    using embed_empty_result [of _ m]
    by (simp add: embed_output_def)
qed

text \<open>C2, amended, on an embedder whose tokenizer raises and on one that works.\<close>

theorem embed_output_forwards_every_chunk_witness:
  "length (embed_output failing_embedder
     [\<lparr>doc_id = py ''A'', chunk_id = py ''c1'', full_raw_text = py ''breaking news'',
       text_field = py ''breaking news'', metadata = [(py ''url'', py ''https://x/a'')]\<rparr>]) = 1 \<and>
   encode (tokenizer failing_embedder) (py ''breaking news'') (max_input_length failing_embedder) =
     Inl (OtherException (py ''tokenizer'')) \<and>
   embeddings (embed_output failing_embedder
     [\<lparr>doc_id = py ''A'', chunk_id = py ''c1'', full_raw_text = py ''breaking news'',
       text_field = py ''breaking news'', metadata = [(py ''url'', py ''https://x/a'')]\<rparr>] ! 0) = [] \<and>
   embeddings (embed_output working_embedder
     [\<lparr>doc_id = py ''A'', chunk_id = py ''c1'', full_raw_text = py ''breaking news'',
       text_field = py ''breaking news'', metadata = [(py ''url'', py ''https://x/a'')]\<rparr>] ! 0) =
     [1, 2, 3]"
  using embed_output_forwards_every_chunk [of failing_embedder
     "[\<lparr>doc_id = py ''A'', chunk_id = py ''c1'', full_raw_text = py ''breaking news'',
       text_field = py ''breaking news'', metadata = [(py ''url'', py ''https://x/a'')]\<rparr>]"]
  by (simp add: failing_embedder_def working_embedder_def char_tokenizer_def embed_output_def
        from_chunked_def embed_def py_def)

section \<open>Properties of the source partition\<close>

lemma next_batch_keeps_self: "snd (next_batch self now provider) = self"
  by (simp add: next_batch_def Let_def)

lemma after_polls_keeps_self: "after_polls self polls = self"
  by (induction self polls rule: after_polls.induct) (simp_all add: next_batch_keeps_self)

text \<open>
  No poll assigns \<^verbatim>\<open>last_fetched_timestamp\<close>: after any run of polls \<^verbatim>\<open>snapshot\<close> returns what
  \<^verbatim>\<open>__init__\<close> stored, the resume state or else the time of construction.
\<close>

lemma snapshot_after_polls:
  "snapshot (after_polls (NewsStreamSource_init f resume_state started) polls) =
     (case resume_state of Some t \<Rightarrow> t | None \<Rightarrow> started)"
  by (simp add: after_polls_keeps_self snapshot_def NewsStreamSource_init_def)

text \<open>
  C4. The claim: after a poll whose fetch returns articles, the cursor that \<^verbatim>\<open>snapshot\<close>
  returns is the time of that poll. The code at a partition built at 08:00:00 without
  resume state and polled at 08:00:05, the fetch returning one article: the poll emits
  the article, and \<^verbatim>\<open>snapshot\<close> still returns 08:00:00, the time of construction, not
  08:00:05. The attribute is named \<^verbatim>\<open>last_fetched_timestamp\<close>, is seeded from the resume
  state and is what \<^verbatim>\<open>snapshot\<close> saves "to resume later", but \<^verbatim>\<open>next_batch\<close> never assigns it.
\<close>

theorem snapshot_not_advanced_by_poll:
  "fst (next_batch
     (NewsStreamSource_init (\<lambda>provider. provider) None
        \<lparr>year = 2026, month = 1, day = 1, hour = 8, minute = 0, second = 0\<rparr>)
     \<lparr>year = 2026, month = 1, day = 1, hour = 8, minute = 0, second = 5\<rparr>
     [py ''article'']) = [py ''article''] \<and>
   snapshot (snd (next_batch
     (NewsStreamSource_init (\<lambda>provider. provider) None
        \<lparr>year = 2026, month = 1, day = 1, hour = 8, minute = 0, second = 0\<rparr>)
     \<lparr>year = 2026, month = 1, day = 1, hour = 8, minute = 0, second = 5\<rparr>
     [py ''article''])) =
     \<lparr>year = 2026, month = 1, day = 1, hour = 8, minute = 0, second = 0\<rparr> \<and>
   snapshot (snd (next_batch
     (NewsStreamSource_init (\<lambda>provider. provider) None
        \<lparr>year = 2026, month = 1, day = 1, hour = 8, minute = 0, second = 0\<rparr>)
     \<lparr>year = 2026, month = 1, day = 1, hour = 8, minute = 0, second = 5\<rparr>
     [py ''article''])) \<noteq>
     \<lparr>year = 2026, month = 1, day = 1, hour = 8, minute = 0, second = 5\<rparr>"
  by (simp add: next_batch_def NewsStreamSource_init_def snapshot_def py_def)

section \<open>Properties of the date validator\<close>

lemmas strftime_defs = strftime_def pad2_def year_digits_def digit_def py_def

text \<open>
  The fallback of \<^verbatim>\<open>clean_date_field\<close> is the value of the module constant, whatever the
  time of the call; the parsed date is formatted; an exception that the \<^verbatim>\<open>except\<close> clause
  does not name leaves the function.
\<close>

lemma clean_date_field_cases:
  "(parser_parse v = Inl ValueError \<or> parser_parse v = Inl TypeError \<longrightarrow>
      clean_date_field parser_parse (CURRENT_TIMESTAMP import_time) v = Inr (strftime import_time)) \<and>
   (\<forall>parsed_date. parser_parse v = Inr parsed_date \<longrightarrow>
      clean_date_field parser_parse (CURRENT_TIMESTAMP import_time) v = Inr (strftime parsed_date)) \<and>
   (\<forall>e. parser_parse v = Inl e \<and> e \<noteq> ValueError \<and> e \<noteq> TypeError \<longrightarrow>
      clean_date_field parser_parse (CURRENT_TIMESTAMP import_time) v = Inl e)"
  by (auto simp: clean_date_field_def CURRENT_TIMESTAMP_def)

text \<open>
  C5. The claim: on a parse failure \<^verbatim>\<open>clean_date_field\<close> returns the current timestamp,
  the UTC time at which the failure occurs, and on success the parsed date formatted as
  \<^verbatim>\<open>"%Y-%m-%d %H:%M:%S"\<close>. The code in a process that imported \<^verbatim>\<open>backend.models\<close> on
  1 January 2026 at 08:00:00, at the input \<^verbatim>\<open>"2024-13-40"\<close>, which is no date: the result is
  \<^verbatim>\<open>"2026-01-01 08:00:00"\<close>, the time of the import, also when the failure occurs on
  2 January at 09:30:00, where the docstring ("falling back to the current timestamp")
  and the log message ("using the current timestamp") say the current time. On
  \<^verbatim>\<open>"March 3, 2024"\<close> the result is \<^verbatim>\<open>"2024-03-03 00:00:00"\<close>, as the claim says.
\<close>

theorem clean_date_field_not_failure_time:
  "clean_date_field example_parser
     (CURRENT_TIMESTAMP \<lparr>year = 2026, month = 1, day = 1, hour = 8, minute = 0, second = 0\<rparr>)
     (py ''2024-13-40'') = Inr (py ''2026-01-01 08:00:00'') \<and>
   strftime \<lparr>year = 2026, month = 1, day = 2, hour = 9, minute = 30, second = 0\<rparr> =
     py ''2026-01-02 09:30:00'' \<and>
   clean_date_field example_parser
     (CURRENT_TIMESTAMP \<lparr>year = 2026, month = 1, day = 1, hour = 8, minute = 0, second = 0\<rparr>)
     (py ''2024-13-40'') \<noteq>
     Inr (strftime \<lparr>year = 2026, month = 1, day = 2, hour = 9, minute = 30, second = 0\<rparr>) \<and>
   clean_date_field example_parser
     (CURRENT_TIMESTAMP \<lparr>year = 2026, month = 1, day = 1, hour = 8, minute = 0, second = 0\<rparr>)
     (py ''March 3, 2024'') = Inr (py ''2024-03-03 00:00:00'') \<and>
   strftime \<lparr>year = 99, month = 1, day = 1, hour = 0, minute = 0, second = 0\<rparr> =
     py ''99-01-01 00:00:00''"
  by (simp add: clean_date_field_def example_parser_def CURRENT_TIMESTAMP_def strftime_defs)

section \<open>Properties of the string methods\<close>

lemma set_strip: "set (strip s) \<subseteq> set s"
proof -
  have "set (dropWhile is_space (rev (dropWhile is_space s))) \<subseteq> set (rev (dropWhile is_space s))"
    by (auto dest: set_dropWhileD)
  also have "\<dots> \<subseteq> set s"
    by (auto dest: set_dropWhileD)
  finally show ?thesis by (simp add: strip_def)
qed

lemma rev_dropWhile_split: "rev (dropWhile P (rev t)) @ rev (takeWhile P (rev t)) = t"
proof -
  have "rev (takeWhile P (rev t) @ dropWhile P (rev t)) = t" by simp
  then show ?thesis by (simp only: rev_append)
qed

lemma strip_split: "\<exists>a b. s = a @ strip s @ b"
proof -
  let ?t = "dropWhile is_space s"
  have "s = takeWhile is_space s @ ?t" by simp
  moreover have "?t = strip s @ rev (takeWhile is_space (rev ?t))"
    using rev_dropWhile_split [of is_space ?t] by (simp add: strip_def)
  ultimately have "s = takeWhile is_space s @ strip s @ rev (takeWhile is_space (rev ?t))"
    by simp
  then show ?thesis by blast
qed

lemma sublist_strip: "sublist (strip s) s"
  using strip_split [of s] by (auto simp: sublist_def)

lemma strip_fixed: "s = [] \<or> \<not> is_space (hd s) \<and> \<not> is_space (last s) \<Longrightarrow> strip s = s"
proof (cases s)
  case Nil
  then show ?thesis by (simp add: strip_def)
next
  case (Cons c cs)
  assume "s = [] \<or> \<not> is_space (hd s) \<and> \<not> is_space (last s)"
  with Cons have h: "\<not> is_space (hd s)" and l: "\<not> is_space (last s)" and ne: "s \<noteq> []" by auto
  from h ne have front: "dropWhile is_space s = s" by (cases s) auto
  from l ne have "dropWhile is_space (rev s) = rev s"
    by (cases "rev s") (auto simp: last_rev [symmetric] hd_rev)
  with front show ?thesis by (simp add: strip_def)
qed

lemma strip_ends: "strip s = [] \<or> \<not> is_space (hd (strip s)) \<and> \<not> is_space (last (strip s))"
proof (cases "strip s = []")
  case True
  then show ?thesis by simp
next
  case False
  let ?t = "dropWhile is_space s"
  let ?u = "dropWhile is_space (rev ?t)"
  have u: "?u \<noteq> []" using False by (simp add: strip_def)
  then have "\<not> is_space (hd ?u)" by (rule hd_dropWhile)
  then have l: "\<not> is_space (last (strip s))"
    using u by (simp add: strip_def last_rev)
  have t: "?t = strip s @ rev (takeWhile is_space (rev ?t))"
    using rev_dropWhile_split [of is_space ?t] by (simp add: strip_def)
  then have "?t \<noteq> []" using False by (metis append_is_Nil_conv)
  then have "\<not> is_space (hd ?t)" by (rule hd_dropWhile)
  moreover have "hd ?t = hd (strip s)"
    using False by (subst t) simp
  ultimately show ?thesis using l by simp
qed

lemma strip_strip: "strip (strip s) = strip s"
  using strip_ends [of s] by (rule strip_fixed)

lemma set_collapse_spaces: "set (collapse_spaces s) = set s"
  by (induction s rule: collapse_spaces.induct) auto

lemma hd_collapse_spaces: "s \<noteq> [] \<Longrightarrow> collapse_spaces s \<noteq> [] \<and> hd (collapse_spaces s) = hd s"
  by (induction s rule: collapse_spaces.induct) auto

lemma no_double_space_collapse: "\<not> sublist [32, 32] (collapse_spaces s)"
proof (induction s rule: collapse_spaces.induct)
  case (1 a b cs)
  have "collapse_spaces (b # cs) \<noteq> [] \<and> hd (collapse_spaces (b # cs)) = b"
    using hd_collapse_spaces [of "b # cs"] by simp
  then obtain ds where ds: "collapse_spaces (b # cs) = b # ds"
    by (cases "collapse_spaces (b # cs)") auto
  with 1 show ?case
    by (auto simp: sublist_Cons_right)
qed (auto simp: sublist_Cons_right)

lemma collapse_spaces_fixed: "\<not> sublist [32, 32] s \<Longrightarrow> collapse_spaces s = s"
  by (induction s rule: collapse_spaces.induct) (auto simp: sublist_Cons_right)

lemma replace_scan_no_match:
  "c \<in> set old \<Longrightarrow> c \<notin> set s \<Longrightarrow> replace_scan old new s = s"
proof (induction s)
  case Nil
  show ?case by simp
next
  case (Cons x xs)
  have "take (length old) (x # xs) \<noteq> old"
  proof
    assume "take (length old) (x # xs) = old"
    then have "set old \<subseteq> set (x # xs)"
      using set_take_subset [of "length old" "x # xs"] by simp
    with Cons.prems show False by auto
  qed
  with Cons show ?case by simp
qed

lemma replace_no_match:
  "old \<noteq> [] \<Longrightarrow> c \<in> set old \<Longrightarrow> c \<notin> set s \<Longrightarrow> replace old new s = s"
  by (simp add: replace_def replace_scan_no_match)

section \<open>Properties of the cleaners\<close>

lemma plain_mono: "set t \<subseteq> set s \<Longrightarrow> plain s \<Longrightarrow> plain t"
  by (auto simp: plain_def)

lemma plain_clean_full: "plain (clean_full s)"
  by (simp add: plain_def clean_full_def remove_punctuation_def clean_non_ascii_chars_def)

lemma letters_not_punctuation: "97 \<le> c \<and> c \<le> 122 \<Longrightarrow> \<not> is_punctuation c"
  by (auto simp: is_punctuation_def punctuation_chars_def)

lemma digits_not_punctuation: "48 \<le> c \<and> c \<le> 57 \<Longrightarrow> \<not> is_punctuation c"
  by (auto simp: is_punctuation_def punctuation_chars_def)

lemma dash_is_punctuation: "is_punctuation 45"
  by (simp add: is_punctuation_def punctuation_chars_def)

lemma bullets_not_plain: "b \<in> set unicode_bullets \<Longrightarrow> 128 \<le> b \<or> is_punctuation b"
  by (auto simp: unicode_bullets_def is_punctuation_def punctuation_chars_def)

lemma quote_patterns_not_plain:
  "(old, new) \<in> set unicode_quote_table \<Longrightarrow>
   old \<noteq> [] \<and> (128 \<le> hd old \<or> is_punctuation (hd old))"
  by (auto simp: unicode_quote_table_def py_def is_punctuation_def punctuation_chars_def)

lemma lower_char_ascii:
  "c < 128 \<Longrightarrow> lower_char c = [if 65 \<le> c \<and> c \<le> 90 then c + 32 else c]"
  by (simp add: lower_char_def)

lemma lower_ascii:
  "\<forall>c \<in> set s. c < 128 \<Longrightarrow> lower s = map (\<lambda>c. if 65 \<le> c \<and> c \<le> 90 then c + 32 else c) s"
  by (induction s) (simp_all add: lower_def lower_char_ascii)

lemma lower_fixed: "\<forall>c \<in> set s. c < 128 \<and> \<not> (65 \<le> c \<and> c \<le> 90) \<Longrightarrow> lower s = s"
  by (induction s) (simp_all add: lower_def lower_char_ascii)

lemma plain_lower: "plain s \<Longrightarrow> plain (lower s)"
proof -
  assume p: "plain s"
  then have eq: "lower s = map (\<lambda>c. if 65 \<le> c \<and> c \<le> 90 then c + 32 else c) s"
    by (simp add: lower_ascii plain_def)
  show ?thesis
    unfolding eq using p letters_not_punctuation by (auto simp: plain_def)
qed

lemma clean_dashes_plain: "plain s \<Longrightarrow> clean_dashes s = strip s"
proof -
  assume p: "plain s"
  have "map (\<lambda>c. if c = 45 \<or> c = 8211 then 32 else c) s = s"
  proof (rule map_idI)
    fix c assume "c \<in> set s"
    with p have "c < 128" "\<not> is_punctuation c" by (auto simp: plain_def)
    with dash_is_punctuation show "(if c = 45 \<or> c = 8211 then 32 else c) = c" by auto
  qed
  then show ?thesis by (simp add: clean_dashes_def)
qed

lemma clean_bullets_plain: "plain s \<Longrightarrow> clean_bullets s = s"
proof (cases s)
  case Nil
  then show ?thesis by (simp add: clean_bullets_def)
next
  case (Cons b rest)
  assume "plain s"
  with Cons have "b < 128" "\<not> is_punctuation b" by (auto simp: plain_def)
  with bullets_not_plain [of b] have "b \<notin> set unicode_bullets" by auto
  with Cons show ?thesis by (simp add: clean_bullets_def)
qed

lemma foldl_replace_no_match:
  "\<forall>(old, new) \<in> set table. old \<noteq> [] \<and> hd old \<notin> set s \<Longrightarrow>
   foldl (\<lambda>t (old, new). replace old new t) s table = s"
proof (induction table)
  case Nil
  show ?case by simp
next
  case (Cons row table)
  obtain old new where row: "row = (old, new)" by (cases row)
  with Cons.prems have "old \<noteq> []" "hd old \<notin> set s" by auto
  then have "replace old new s = s"
    using replace_no_match [of old "hd old" s new] by simp
  with Cons row show ?case by simp
qed

lemma replace_unicode_quotes_plain: "plain s \<Longrightarrow> replace_unicode_quotes s = s"
proof -
  assume p: "plain s"
  have "\<forall>(old, new) \<in> set unicode_quote_table. old \<noteq> [] \<and> hd old \<notin> set s"
  proof (clarify, rule conjI)
    fix old new assume row: "(old, new) \<in> set unicode_quote_table"
    then show "old \<noteq> []" using quote_patterns_not_plain by blast
    from row have "128 \<le> hd old \<or> is_punctuation (hd old)"
      using quote_patterns_not_plain by blast
    with p show "hd old \<notin> set s" by (auto simp: plain_def)
  qed
  then show ?thesis
    unfolding replace_unicode_quotes_def by (rule foldl_replace_no_match)
qed

lemma filters_plain:
  "plain s \<Longrightarrow> remove_punctuation (clean_non_ascii_chars s) = s"
  by (simp add: plain_def remove_punctuation_def clean_non_ascii_chars_def filter_id_conv)

lemma plain_strip: "plain s \<Longrightarrow> plain (strip s)"
  using set_strip by (rule plain_mono)

lemma plain_collapse_spaces: "plain s \<Longrightarrow> plain (collapse_spaces s)"
  by (simp add: plain_def set_collapse_spaces)

lemma space_not_punctuation: "\<not> is_punctuation 32"
  by (simp add: is_punctuation_def punctuation_chars_def)

lemma plain_newlines: "plain s \<Longrightarrow> plain (map (\<lambda>c. if c = 160 \<or> c = 10 then 32 else c) s)"
  using space_not_punctuation by (auto simp: plain_def)

lemma clean_full_plain:
  "plain s \<Longrightarrow>
   clean_full s =
     strip (collapse_spaces (map (\<lambda>c. if c = 160 \<or> c = 10 then 32 else c) (strip (lower s))))"
proof -
  assume p: "plain s"
  let ?w = "strip (collapse_spaces (map (\<lambda>c. if c = 160 \<or> c = 10 then 32 else c) (strip (lower s))))"
  have pw: "plain ?w"
    using p by (intro plain_strip plain_collapse_spaces plain_newlines plain_lower)
  have "clean s = ?w"
    using p pw
    by (simp add: clean_def clean_dashes_plain plain_lower clean_extra_whitespace_def
          clean_bullets_plain strip_strip)
  with pw show ?thesis
    by (simp add: clean_full_def replace_unicode_quotes_plain filters_plain)
qed

lemma sublist_strip_trans: "sublist t (strip s) \<Longrightarrow> sublist t s"
  using sublist_strip [of s] by (rule sublist_order.order.trans [rotated])

lemma tidy_clean_full: "plain s \<Longrightarrow> tidy (clean_full s)"
proof -
  assume p: "plain s"
  let ?nl = "\<lambda>c::nat. if c = 160 \<or> c = 10 then 32 else c"
  let ?lo = "\<lambda>c::nat. if 65 \<le> c \<and> c \<le> 90 then c + 32 else c"
  have eq: "clean_full s = strip (collapse_spaces (map ?nl (strip (lower s))))"
    using p by (rule clean_full_plain)
  have lo: "lower s = map ?lo s"
    using p by (simp add: lower_ascii plain_def)
  have "set (clean_full s) \<subseteq> set (map ?nl (strip (lower s)))"
    unfolding eq using set_strip [of "collapse_spaces (map ?nl (strip (lower s)))"]
    by (simp add: set_collapse_spaces)
  also have "\<dots> \<subseteq> ?nl ` set (lower s)"
    using set_strip [of "lower s"] by auto
  finally have sub: "set (clean_full s) \<subseteq> ?nl ` set (lower s)" .
  have low: "\<forall>d \<in> set (lower s). \<not> (65 \<le> d \<and> d \<le> 90)"
    unfolding lo by auto
  have chars: "\<forall>c \<in> set (clean_full s). \<not> (65 \<le> c \<and> c \<le> 90) \<and> c \<noteq> 10"
  proof
    fix c assume "c \<in> set (clean_full s)"
    with sub obtain d where d: "d \<in> set (lower s)" and c: "c = ?nl d" by auto
    from low d have "\<not> (65 \<le> d \<and> d \<le> 90)" by blast
    with c show "\<not> (65 \<le> c \<and> c \<le> 90) \<and> c \<noteq> 10" by (auto split: if_splits)
  qed
  have "\<not> sublist [32, 32] (clean_full s)"
    unfolding eq using no_double_space_collapse sublist_strip_trans by blast
  moreover have "strip (clean_full s) = clean_full s"
    unfolding eq by (rule strip_strip)
  ultimately show ?thesis
    using chars plain_clean_full by (simp add: tidy_def)
qed

lemma clean_full_tidy: "tidy s \<Longrightarrow> clean_full s = s"
proof -
  assume t: "tidy s"
  then have p: "plain s" and st: "strip s = s" and nd: "\<not> sublist [32, 32] s"
    and chars: "\<forall>c \<in> set s. \<not> (65 \<le> c \<and> c \<le> 90) \<and> c \<noteq> 10"
    by (simp_all add: tidy_def)
  have lo: "lower s = s"
    using p chars by (intro lower_fixed) (auto simp: plain_def)
  have nl: "map (\<lambda>c. if c = 160 \<or> c = 10 then 32 else c) s = s"
    using p chars by (intro map_idI) (auto simp: plain_def)
  show ?thesis
    using p by (simp add: clean_full_plain lo st nl collapse_spaces_fixed [OF nd])
qed

lemmas cleaner_defs =
  py_def clean_full_def clean_def lower_def lower_char_def clean_dashes_def strip_def
  is_space_def whitespace_chars_def clean_extra_whitespace_def clean_bullets_def
  unicode_bullets_def replace_unicode_quotes_def unicode_quote_table_def replace_def
  clean_non_ascii_chars_def remove_punctuation_def is_punctuation_def punctuation_chars_def

text \<open>
  C6, as stated, fails: cleaning \<^verbatim>\<open>"a . b"\<close> deletes the full stop after the whitespace was
  collapsed and leaves two spaces, which a second cleaning collapses.
\<close>

theorem clean_full_second_pass_differs:
  "clean_full (py ''a . b'') = py ''a  b'' \<and>
   clean_full (clean_full (py ''a . b'')) = py ''a b'' \<and>
   clean_full (clean_full (py ''a . b'')) \<noteq> clean_full (py ''a . b'')"
proof -
  have one: "clean_full (py ''a . b'') = py ''a  b''"
    by (simp add: cleaner_defs)
  have two: "clean_full (py ''a  b'') = py ''a b''"
    by (simp add: cleaner_defs)
  have "py ''a b'' \<noteq> py ''a  b''"
    by (simp add: py_def)
  with one two show ?thesis by simp
qed

text \<open>
  C6, amended. \<^verbatim>\<open>clean_full\<close> is idempotent on every input that is ASCII without
  punctuation: \<^verbatim>\<open>clean_full(clean_full(x)) == clean_full(x)\<close>. For every input string the
  second pass reaches a fixed point: a third pass changes nothing.
\<close>

theorem clean_full_stable_after_two_passes:
  "(plain s \<longrightarrow> clean_full (clean_full s) = clean_full s) \<and>
   clean_full (clean_full (clean_full s)) = clean_full (clean_full s)"
proof -
  have "clean_full (clean_full t) = clean_full t" if "plain t" for t
    using that by (intro clean_full_tidy tidy_clean_full)
  then show ?thesis
    using plain_clean_full [of s] by blast
qed

text \<open>C6, amended, on a plain text and on the input of the counterexample.\<close>

theorem clean_full_stable_after_two_passes_witness:
  "plain (py ''Top  story'') \<and>
   clean_full (py ''Top  story'') = py ''top story'' \<and>
   clean_full (clean_full (py ''Top  story'')) = clean_full (py ''Top  story'') \<and>
   clean_full (clean_full (clean_full (py ''a . b''))) = clean_full (clean_full (py ''a . b''))"
proof -
  have p: "plain (py ''Top  story'')"
    by (simp add: plain_def py_def is_punctuation_def punctuation_chars_def)
  have one: "clean_full (py ''Top  story'') = py ''top story''"
    by (simp add: cleaner_defs)
  from p one show ?thesis
    using clean_full_stable_after_two_passes [of "py ''Top  story''"]
      clean_full_stable_after_two_passes [of "py ''a . b''"]
    by simp
qed

section \<open>Properties of the text validator\<close>

text \<open>
  C3. The claim: after normalization \<^verbatim>\<open>title\<close>, \<^verbatim>\<open>description\<close> and \<^verbatim>\<open>content\<close> are non-empty,
  the sentinel being substituted also when the field becomes empty after cleaning. The
  code at a field of punctuation only, \<^verbatim>\<open>"!!!"\<close>, and at one of two characters outside
  ASCII: the value is not falsy, so it is cleaned, and the validator returns the cleaned
  form, the empty string, not the sentinel. The validator tests the raw value only, where
  its sibling \<^verbatim>\<open>clean_url_fields\<close> ends with \<^verbatim>\<open>return value or "N/A"\<close> and so substitutes
  after cleaning. (A validator runs on the values given to the constructor; both
  \<^verbatim>\<open>to_common\<close> methods give all three text fields.)
\<close>

theorem clean_text_fields_empty_after_cleaning:
  "py ''!!!'' \<noteq> [] \<and> clean_full (py ''!!!'') = [] \<and>
   clean_text_fields (Some (py ''!!!'')) = [] \<and>
   clean_text_fields (Some (py ''!!!'')) \<noteq> py ''N/A'' \<and>
   clean_text_fields (Some [233, 233]) = [] \<and>
   clean_text_fields (Some []) = py ''N/A'' \<and>
   clean_text_fields None = py ''N/A''"
  by (simp add: clean_text_fields_def cleaner_defs)

section \<open>Properties of the chunker\<close>

lemma split_on_not_Nil: "split_on sep s \<noteq> []"
  by (induction s) (auto split: list.splits)

lemma join_split_on:
  "hd (split_on sep s) @ concat (map (\<lambda>w. sep # w) (tl (split_on sep s))) = s"
proof (induction s)
  case Nil
  show ?case by simp
next
  case (Cons c cs)
  obtain w ws where ws: "split_on sep cs = w # ws"
    using split_on_not_Nil [of sep cs] by (cases "split_on sep cs") auto
  with Cons show ?case by auto
qed

lemma attention_window_loop_joins:
  assumes "0 < size_so_far"
    and "size_so_far + sum_list (map (\<lambda>w. length (tokenize tk w)) segments) \<le> max_chunk_size"
    and "segments \<noteq> []"
  shows "attention_window_loop tk max_chunk_size [] text_so_far size_so_far segments =
           Inr [text_so_far @ concat (map (\<lambda>w. 32 # w) segments)]"
  using assms
proof (induction segments arbitrary: text_so_far size_so_far)
  case Nil
  then show ?case by simp
next
  case (Cons segment rest)
  let ?n = "length (tokenize tk segment)"
  show ?case
  proof (cases "rest = []")
    case True
    with Cons.prems show ?thesis by (simp add: py_def)
  next
    case False
    have "attention_window_loop tk max_chunk_size [] (text_so_far @ 32 # segment)
            (size_so_far + ?n) rest =
          Inr [(text_so_far @ 32 # segment) @ concat (map (\<lambda>w. 32 # w) rest)]"
      using Cons.prems False by (intro Cons.IH) simp_all
    with Cons.prems False show ?thesis by (simp add: py_def)
  qed
qed

lemma chunk_by_attention_window_one_chunk:
  assumes "s \<noteq> []"
    and "0 < length (tokenize tk (hd (split_on 32 s)))"
    and "sum_list (map (\<lambda>w. length (tokenize tk w)) (split_on 32 s)) + 2 \<le> model_max_length tk"
  shows "chunk_by_attention_window s tk = Inr [s]"
proof -
  obtain w ws where ws: "split_on 32 s = w # ws"
    using split_on_not_Nil [of 32 s] by (cases "split_on 32 s") auto
  let ?m = "model_max_length tk - 2"
  let ?n = "length (tokenize tk w)"
  have n: "0 < ?n"
    using assms(2) ws by simp
  have sum: "?n + sum_list (map (\<lambda>w. length (tokenize tk w)) ws) + 2 \<le> model_max_length tk"
    using assms(3) ws by simp
  have total: "?n + sum_list (map (\<lambda>w. length (tokenize tk w)) ws) \<le> ?m"
    using sum by linarith
  have big: "\<not> 2 \<ge> model_max_length tk"
    using n sum by linarith
  have joined: "w @ concat (map (\<lambda>w. 32 # w) ws) = s"
    using join_split_on [of 32 s] ws by simp
  have "attention_window_loop tk ?m [] [] 0 (w # ws) = Inr [s]"
  proof (cases "ws = []")
    case True
    with joined assms(1) have "w = s" "w \<noteq> []" by simp_all
    with True n total show ?thesis by simp
  next
    case False
    have "attention_window_loop tk ?m [] w ?n ws = Inr [w @ concat (map (\<lambda>w. 32 # w) ws)]"
      using n total False by (rule attention_window_loop_joins)
    with False n total joined show ?thesis by simp
  qed
  with big ws show ?thesis
    by (simp add: chunk_by_attention_window_def)
qed

lemma chunk_text_no_section: "split_text s = [] \<Longrightarrow> chunk_text split_text tk s = Inr []"
  by (simp add: chunk_text_def)

lemma chunk_text_one_section:
  "split_text s = [sec] \<Longrightarrow> chunk_by_attention_window sec tk = Inr cs \<Longrightarrow>
   chunk_text split_text tk s = Inr cs"
  by (simp add: chunk_text_def)

text \<open>
  C7, as stated, fails: the text of one space is not empty and fits the window, and
  \<^verbatim>\<open>chunk_text\<close> returns no chunk for it, both when the splitter strips it to nothing and
  when the splitter hands it on as it is.
\<close>

theorem chunk_text_whitespace_only:
  "py '' '' \<noteq> [] \<and>
   length (tokenize char_tokenizer (py '' '')) + 2 \<le> model_max_length char_tokenizer \<and>
   chunk_text short_text_splitter char_tokenizer (py '' '') = Inr [] \<and>
   chunk_text (\<lambda>s. [s]) char_tokenizer (py '' '') = Inr []"
  by (simp add: chunk_text_def short_text_splitter_def char_tokenizer_def
        chunk_by_attention_window_def strip_def is_space_def whitespace_chars_def py_def)

text \<open>
  C7, amended. \<^verbatim>\<open>chunk_text("")\<close> returns an empty sequence, the splitter returning no
  section for the empty text. For every text that the splitter returns as one non-empty
  section, whose first space-separated segment has at least one token and whose segments
  have at most \<^verbatim>\<open>model_max_length - 2\<close> tokens in all, \<^verbatim>\<open>chunk_text\<close> returns exactly one chunk,
  equal to that section. With the splitter's defaults and a text shorter than its section
  size the section is the text without its surrounding whitespace; a text of whitespace
  only yields no chunk.
\<close>

theorem chunk_text_short_text:
  "(split_text [] = [] \<longrightarrow> chunk_text split_text tk [] = Inr []) \<and>
   (split_text s = [sec] \<and> sec \<noteq> [] \<and>
    0 < length (tokenize tk (hd (split_on 32 sec))) \<and>
    sum_list (map (\<lambda>w. length (tokenize tk w)) (split_on 32 sec)) + 2 \<le> model_max_length tk
      \<longrightarrow> chunk_text split_text tk s = Inr [sec]) \<and>
   chunk_text short_text_splitter tk [] = Inr [] \<and>
   (strip s = [] \<longrightarrow> chunk_text short_text_splitter tk s = Inr []) \<and>
   (strip s \<noteq> [] \<and>
    0 < length (tokenize tk (hd (split_on 32 (strip s)))) \<and>
    sum_list (map (\<lambda>w. length (tokenize tk w)) (split_on 32 (strip s))) + 2 \<le> model_max_length tk
      \<longrightarrow> chunk_text short_text_splitter tk s = Inr [strip s])"
proof -
  have one: "chunk_text f tk s = Inr [sec]"
    if "f s = [sec]" "sec \<noteq> []"
      "0 < length (tokenize tk (hd (split_on 32 sec)))"
      "sum_list (map (\<lambda>w. length (tokenize tk w)) (split_on 32 sec)) + 2 \<le> model_max_length tk"
    for f :: "pystr \<Rightarrow> pystr list" and sec
    using that(1) chunk_by_attention_window_one_chunk [OF that(2,3,4)]
    by (rule chunk_text_one_section)
  have "chunk_text short_text_splitter tk [] = Inr []"
    by (simp add: chunk_text_no_section short_text_splitter_def strip_def)
  moreover have "strip s = [] \<longrightarrow> chunk_text short_text_splitter tk s = Inr []"
    by (simp add: chunk_text_no_section short_text_splitter_def)
  moreover have "strip s \<noteq> [] \<and>
    0 < length (tokenize tk (hd (split_on 32 (strip s)))) \<and>
    sum_list (map (\<lambda>w. length (tokenize tk w)) (split_on 32 (strip s))) + 2 \<le> model_max_length tk
      \<longrightarrow> chunk_text short_text_splitter tk s = Inr [strip s]"
    using one [of short_text_splitter "strip s"] by (simp add: short_text_splitter_def)
  ultimately show ?thesis
    using one [of split_text sec] by (simp add: chunk_text_no_section)
qed

text \<open>C7, amended, on the empty text, on three spaces and on a text of two words.\<close>

theorem chunk_text_short_text_witness:
  "short_text_splitter [] = [] \<and>
   short_text_splitter (py '' ab  cd '') = [py ''ab  cd''] \<and>
   split_on 32 (py ''ab  cd'') = [py ''ab'', [], py ''cd''] \<and>
   model_max_length char_tokenizer = 16 \<and>
   chunk_text short_text_splitter char_tokenizer [] = Inr [] \<and>
   strip (py ''   '') = [] \<and>
   chunk_text short_text_splitter char_tokenizer (py ''   '') = Inr [] \<and>
   chunk_text short_text_splitter char_tokenizer (py '' ab  cd '') = Inr [py ''ab  cd'']"
  using chunk_text_short_text [of short_text_splitter char_tokenizer "py '' ab  cd ''" "py ''ab  cd''"]
    chunk_text_short_text [of short_text_splitter char_tokenizer "py ''   ''" "[]"]
  by (simp add: short_text_splitter_def char_tokenizer_def strip_def is_space_def
        whitespace_chars_def py_def)

end
